theory Spec2Isabelle
  imports Main
begin

section \<open>Rectangle\<close>

text \<open>
  \<^verbatim>\<open>function Rectangle(width, height)\<close> returns an object literal with the two fields and
  the method \<^verbatim>\<open>getArea\<close>. The number type and its product are left abstract: the code only
  stores the two arguments and multiplies the two fields.
\<close>

record 'a Rectangle_obj =
  width :: 'a
  height :: 'a

definition Rectangle :: "'a \<Rightarrow> 'a \<Rightarrow> 'a Rectangle_obj" where
  "Rectangle w h = \<lparr>width = w, height = h\<rparr>"

definition getArea :: "'a::times Rectangle_obj \<Rightarrow> 'a" where
  "getArea this = width this * height this"


section \<open>CssBuilder: one instance\<close>

text \<open>
  The object \<^verbatim>\<open>this.el\<close>: six string fields, in the key order of the object literal of the
  constructor (tag, id, class, attr, pseudoClass, pseudoElement). The keys \<^verbatim>\<open>id\<close>,
  \<^verbatim>\<open>class\<close>, \<^verbatim>\<open>attr\<close>, \<^verbatim>\<open>pseudoClass\<close> and \<^verbatim>\<open>pseudoElement\<close> carry the suffix
  \<open>_el\<close>, the plain names being those of the methods.
\<close>

record el_fields =
  tag :: string
  id_el :: string
  class_el :: string
  attr_el :: string
  pseudoClass_el :: string
  pseudoElement_el :: string

record CssBuilder =
  el :: el_fields
  type :: nat
  combinedString :: string

text \<open>
  The two messages are assigned by the constructor and never written again; a
  \<^verbatim>\<open>throw this.orderError\<close> is the error value \<open>OrderError\<close>, whose text is
  \<open>error_message OrderError\<close>.
\<close>

datatype error = OrderError | UniquenessError

definition uniqueError :: string where
  "uniqueError =
     ''Element, id and pseudo-element should not occur more then one time inside the selector''"

definition orderError :: string where
  "orderError =
     ''Selector parts should be arranged in the following order: '' @
     ''element, id, class, attribute, pseudo-class, pseudo-element''"

fun error_message :: "error \<Rightarrow> string" where
  "error_message OrderError = orderError"
| "error_message UniquenessError = uniqueError"

text \<open>\<^verbatim>\<open>constructor()\<close>: the state of \<^verbatim>\<open>new CssBuilder()\<close>.\<close>

definition empty_el :: el_fields where
  "empty_el =
     \<lparr>tag = [], id_el = [], class_el = [], attr_el = [], pseudoClass_el = [],
      pseudoElement_el = []\<rparr>"

definition new_CssBuilder :: CssBuilder where
  "new_CssBuilder = \<lparr>el = empty_el, type = 0, combinedString = []\<rparr>"

text \<open>
  A method call on an instance returns the outcome together with the instance as the call
  left it: a \<^verbatim>\<open>throw\<close> is \<open>Inl\<close> of the error, and the state beside it is the state at
  the moment of the throw (a JavaScript exception undoes no assignment).
\<close>

type_synonym 'a outcome = "(error + 'a) \<times> CssBuilder"

definition checkType :: "nat \<Rightarrow> CssBuilder \<Rightarrow> unit outcome" where
  "checkType t this =
     (if t < type this then (Inl OrderError, this)
      else if t = type this \<and> t \<in> set [1, 2, 6] then (Inl UniquenessError, this)
      else (Inr (), this\<lparr>type := t\<rparr>))"

definition element :: "string \<Rightarrow> CssBuilder \<Rightarrow> unit outcome" where
  "element v this =
     (case checkType 1 this of
        (Inl e, this1) \<Rightarrow> (Inl e, this1)
      | (Inr _, this1) \<Rightarrow> (Inr (), this1\<lparr>el := (el this1)\<lparr>tag := v\<rparr>\<rparr>))"

definition id_m :: "string \<Rightarrow> CssBuilder \<Rightarrow> unit outcome" where
  "id_m v this =
     (case checkType 2 this of
        (Inl e, this1) \<Rightarrow> (Inl e, this1)
      | (Inr _, this1) \<Rightarrow> (Inr (), this1\<lparr>el := (el this1)\<lparr>id_el := ''#'' @ v\<rparr>\<rparr>))"

definition class_m :: "string \<Rightarrow> CssBuilder \<Rightarrow> unit outcome" where
  "class_m v this =
     (case checkType 3 this of
        (Inl e, this1) \<Rightarrow> (Inl e, this1)
      | (Inr _, this1) \<Rightarrow>
          (Inr (), this1\<lparr>el := (el this1)\<lparr>class_el := class_el (el this1) @ ''.'' @ v\<rparr>\<rparr>))"

definition attr :: "string \<Rightarrow> CssBuilder \<Rightarrow> unit outcome" where
  "attr v this =
     (case checkType 4 this of
        (Inl e, this1) \<Rightarrow> (Inl e, this1)
      | (Inr _, this1) \<Rightarrow>
          (Inr (), this1\<lparr>el := (el this1)\<lparr>attr_el := attr_el (el this1) @ ''['' @ v @ '']''\<rparr>\<rparr>))"

definition pseudoClass :: "string \<Rightarrow> CssBuilder \<Rightarrow> unit outcome" where
  "pseudoClass v this =
     (case checkType 5 this of
        (Inl e, this1) \<Rightarrow> (Inl e, this1)
      | (Inr _, this1) \<Rightarrow>
          (Inr (),
           this1\<lparr>el := (el this1)\<lparr>pseudoClass_el := pseudoClass_el (el this1) @ '':'' @ v\<rparr>\<rparr>))"

definition pseudoElement :: "string \<Rightarrow> CssBuilder \<Rightarrow> unit outcome" where
  "pseudoElement v this =
     (case checkType 6 this of
        (Inl e, this1) \<Rightarrow> (Inl e, this1)
      | (Inr _, this1) \<Rightarrow>
          (Inr (),
           this1\<lparr>el := (el this1)\<lparr>pseudoElement_el := pseudoElement_el (el this1) @ ''::'' @ v\<rparr>\<rparr>))"

text \<open>
  \<^verbatim>\<open>Object.values(this.el)\<close> lists the values in key order; the \<^verbatim>\<open>forEach\<close> over
  \<^verbatim>\<open>Object.keys(this.el)\<close> assigns the empty string to each of the six keys.
\<close>

definition values_el :: "el_fields \<Rightarrow> string list" where
  "values_el e = [tag e, id_el e, class_el e, attr_el e, pseudoClass_el e, pseudoElement_el e]"

definition clear_el :: "el_fields \<Rightarrow> el_fields" where
  "clear_el e =
     e\<lparr>tag := [], id_el := [], class_el := [], attr_el := [], pseudoClass_el := [],
       pseudoElement_el := []\<rparr>"

text \<open>
  \<^verbatim>\<open>stringify()\<close> throws nowhere, so it returns a string and the instance.
  \<^verbatim>\<open>if (this.combinedString)\<close> is the test that the string is not empty.
\<close>

definition stringify :: "CssBuilder \<Rightarrow> string \<times> CssBuilder" where
  "stringify this =
     (if combinedString this \<noteq> [] then (combinedString this, this\<lparr>combinedString := []\<rparr>)
      else (concat (values_el (el this)), this\<lparr>el := clear_el (el this)\<rparr>))"


subsection \<open>Chains of category calls\<close>

text \<open>
  A chain \<^verbatim>\<open>b.m1(v1).m2(v2)...\<close> on one instance is a list of calls; every method returns
  \<^verbatim>\<open>this\<close>, so the next call is on the same instance, and a throw ends the chain.
\<close>

datatype call =
    CallElement string
  | CallId string
  | CallClass string
  | CallAttr string
  | CallPseudoClass string
  | CallPseudoElement string

fun apply_call :: "call \<Rightarrow> CssBuilder \<Rightarrow> unit outcome" where
  "apply_call (CallElement v) this = element v this"
| "apply_call (CallId v) this = id_m v this"
| "apply_call (CallClass v) this = class_m v this"
| "apply_call (CallAttr v) this = attr v this"
| "apply_call (CallPseudoClass v) this = pseudoClass v this"
| "apply_call (CallPseudoElement v) this = pseudoElement v this"

text \<open>The rank each method passes to \<^verbatim>\<open>checkType\<close>.\<close>

fun rank :: "call \<Rightarrow> nat" where
  "rank (CallElement v) = 1"
| "rank (CallId v) = 2"
| "rank (CallClass v) = 3"
| "rank (CallAttr v) = 4"
| "rank (CallPseudoClass v) = 5"
| "rank (CallPseudoElement v) = 6"

fun run :: "call list \<Rightarrow> CssBuilder \<Rightarrow> unit outcome" where
  "run [] this = (Inr (), this)"
| "run (c # cs) this =
     (case apply_call c this of
        (Inl e, this1) \<Rightarrow> (Inl e, this1)
      | (Inr _, this1) \<Rightarrow> run cs this1)"


text \<open>
  What the selector of a chain should be, in the words of the specification: the text each
  call contributes, and the contributions gathered category by category, in the order tag,
  id, classes, attributes, pseudo-classes, pseudo-element, each category in the order of
  the calls.
\<close>

fun part :: "call \<Rightarrow> string" where
  "part (CallElement v) = v"
| "part (CallId v) = ''#'' @ v"
| "part (CallClass v) = ''.'' @ v"
| "part (CallAttr v) = ''['' @ v @ '']''"
| "part (CallPseudoClass v) = '':'' @ v"
| "part (CallPseudoElement v) = ''::'' @ v"

definition parts_of_rank :: "nat \<Rightarrow> call list \<Rightarrow> string" where
  "parts_of_rank r cs = concat (map part (filter (\<lambda>c. rank c = r) cs))"

definition selector_text :: "call list \<Rightarrow> string" where
  "selector_text cs =
     parts_of_rank 1 cs @ parts_of_rank 2 cs @ parts_of_rank 3 cs @
     parts_of_rank 4 cs @ parts_of_rank 5 cs @ parts_of_rank 6 cs"

text \<open>
  A chain that respects the ordering rules: the ranks never decrease, and element, id and
  pseudo-element occur at most once each.
\<close>

definition occurrences :: "nat \<Rightarrow> call list \<Rightarrow> nat" where
  "occurrences r cs = length (filter (\<lambda>c. rank c = r) cs)"

text \<open>The rank of the last call of a chain; 0, the initial \<^verbatim>\<open>this.type\<close>, for no call.\<close>

definition last_rank :: "call list \<Rightarrow> nat" where
  "last_rank cs = (if cs = [] then 0 else rank (last cs))"

definition ordered_chain :: "call list \<Rightarrow> bool" where
  "ordered_chain cs \<longleftrightarrow>
     sorted (map rank cs) \<and>
     occurrences 1 cs \<le> 1 \<and> occurrences 2 cs \<le> 1 \<and> occurrences 6 cs \<le> 1"


section \<open>CssBuilder: instances in a store\<close>

text \<open>
  \<^verbatim>\<open>combine\<close> calls \<^verbatim>\<open>stringify\<close> on two instances it is handed, which may be one and the
  same object, and writes to a third. Instances therefore live in a store, addressed by
  references; \<open>next_ref\<close> is the first address not yet handed out by \<^verbatim>\<open>new\<close>.
\<close>

type_synonym ref = nat

record store =
  objs :: "ref \<Rightarrow> CssBuilder"
  next_ref :: ref

definition init_store :: store where
  "init_store = \<lparr>objs = (\<lambda>_. new_CssBuilder), next_ref = 0\<rparr>"

text \<open>\<^verbatim>\<open>new CssBuilder()\<close>\<close>

definition new_instance :: "store \<Rightarrow> ref \<times> store" where
  "new_instance s =
     (next_ref s,
      s\<lparr>objs := (objs s)(next_ref s := new_CssBuilder), next_ref := Suc (next_ref s)\<rparr>)"

text \<open>
  A category method called on a reference: the method runs on the instance found there,
  the instance is written back as the call left it, and the call returns \<^verbatim>\<open>this\<close>.
\<close>

definition call_method :: "(CssBuilder \<Rightarrow> unit outcome) \<Rightarrow> ref \<Rightarrow> store \<Rightarrow> (error + ref) \<times> store" where
  "call_method m this s =
     (case m (objs s this) of
        (Inl e, b) \<Rightarrow> (Inl e, s\<lparr>objs := (objs s)(this := b)\<rparr>)
      | (Inr _, b) \<Rightarrow> (Inr this, s\<lparr>objs := (objs s)(this := b)\<rparr>))"

definition stringify_ref :: "ref \<Rightarrow> store \<Rightarrow> string \<times> store" where
  "stringify_ref this s =
     (case stringify (objs s this) of
        (res, b) \<Rightarrow> (res, s\<lparr>objs := (objs s)(this := b)\<rparr>))"

text \<open>
  \<^verbatim>\<open>combine(selector1, combinator, selector2)\<close>: the template literal evaluates
  \<^verbatim>\<open>selector1.stringify()\<close> first and \<^verbatim>\<open>selector2.stringify()\<close> second, then the result
  is assigned to \<^verbatim>\<open>this.combinedString\<close>.
\<close>

definition combine :: "ref \<Rightarrow> ref \<Rightarrow> string \<Rightarrow> ref \<Rightarrow> store \<Rightarrow> ref \<times> store" where
  "combine this selector1 combinator selector2 s =
     (case stringify_ref selector1 s of
        (str1, s1) \<Rightarrow>
          (case stringify_ref selector2 s1 of
             (str2, s2) \<Rightarrow>
               (this,
                s2\<lparr>objs := (objs s2)
                  (this := (objs s2 this)
                     \<lparr>combinedString := str1 @ '' '' @ combinator @ '' '' @ str2\<rparr>)\<rparr>)))"


subsection \<open>The facade \<^verbatim>\<open>cssSelectorBuilder\<close>\<close>

definition cssSelectorBuilder_element :: "string \<Rightarrow> store \<Rightarrow> (error + ref) \<times> store" where
  "cssSelectorBuilder_element val s =
     (case new_instance s of (r, s1) \<Rightarrow> call_method (element val) r s1)"

definition cssSelectorBuilder_id :: "string \<Rightarrow> store \<Rightarrow> (error + ref) \<times> store" where
  "cssSelectorBuilder_id val s =
     (case new_instance s of (r, s1) \<Rightarrow> call_method (id_m val) r s1)"

definition cssSelectorBuilder_class :: "string \<Rightarrow> store \<Rightarrow> (error + ref) \<times> store" where
  "cssSelectorBuilder_class val s =
     (case new_instance s of (r, s1) \<Rightarrow> call_method (class_m val) r s1)"

definition cssSelectorBuilder_attr :: "string \<Rightarrow> store \<Rightarrow> (error + ref) \<times> store" where
  "cssSelectorBuilder_attr val s =
     (case new_instance s of (r, s1) \<Rightarrow> call_method (attr val) r s1)"

definition cssSelectorBuilder_pseudoClass :: "string \<Rightarrow> store \<Rightarrow> (error + ref) \<times> store" where
  "cssSelectorBuilder_pseudoClass val s =
     (case new_instance s of (r, s1) \<Rightarrow> call_method (pseudoClass val) r s1)"

definition cssSelectorBuilder_pseudoElement :: "string \<Rightarrow> store \<Rightarrow> (error + ref) \<times> store" where
  "cssSelectorBuilder_pseudoElement val s =
     (case new_instance s of (r, s1) \<Rightarrow> call_method (pseudoElement val) r s1)"

definition cssSelectorBuilder_combine :: "ref \<Rightarrow> string \<Rightarrow> ref \<Rightarrow> store \<Rightarrow> ref \<times> store" where
  "cssSelectorBuilder_combine string1 combinator string2 s =
     (case new_instance s of (r, s1) \<Rightarrow> combine r string1 combinator string2 s1)"

text \<open>
  The rest of a chain started at the facade: \<^verbatim>\<open>.m(v)\<close> and \<^verbatim>\<open>.stringify()\<close> applied to
  the value of the expression so far; after a throw nothing further runs.
\<close>

definition then_call ::
  "(error + ref) \<times> store \<Rightarrow> (CssBuilder \<Rightarrow> unit outcome) \<Rightarrow> (error + ref) \<times> store" where
  "then_call r m =
     (case r of
        (Inl e, s) \<Rightarrow> (Inl e, s)
      | (Inr this, s) \<Rightarrow> call_method m this s)"

definition then_stringify :: "(error + ref) \<times> store \<Rightarrow> (error + string) \<times> store" where
  "then_stringify r =
     (case r of
        (Inl e, s) \<Rightarrow> (Inl e, s)
      | (Inr this, s) \<Rightarrow> (case stringify_ref this s of (res, s1) \<Rightarrow> (Inr res, s1)))"


text \<open>
  The string \<^verbatim>\<open>combine\<close> assigns: \<open>selector1\<close> is rendered in the store as it is,
  \<open>selector2\<close> in the store that rendering leaves.
\<close>

definition joined :: "ref \<Rightarrow> string \<Rightarrow> ref \<Rightarrow> store \<Rightarrow> string" where
  "joined selector1 combinator selector2 s =
     fst (stringify_ref selector1 s) @ '' '' @ combinator @ '' '' @
     fst (stringify_ref selector2 (snd (stringify_ref selector1 s)))"

text \<open>
  A store with three instances, at the references 0, 1 and 2:
  \<^verbatim>\<open>element('div').id('main')\<close>, \<^verbatim>\<open>element('table').id('data')\<close> and
  \<^verbatim>\<open>element('tr').pseudoClass('nth-of-type(even)')\<close>.
\<close>

definition example_store :: store where
  "example_store =
     snd (then_call (cssSelectorBuilder_element ''tr''
       (snd (then_call (cssSelectorBuilder_element ''table''
         (snd (then_call (cssSelectorBuilder_element ''div'' init_store) (id_m ''main''))))
         (id_m ''data''))))
       (pseudoClass ''nth-of-type(even)''))"


section \<open>Theorems\<close>

subsection \<open>Rectangle\<close>

text \<open>
  Claim C8. For every width and height, \<open>Rectangle width height\<close> is an object whose
  \<open>width\<close> field is the given width, whose \<open>height\<close> field is the given height, and whose
  \<open>getArea\<close> returns the product of the two.
\<close>

theorem Rectangle_fields_area:
  "width (Rectangle w h) = w \<and> height (Rectangle w h) = h \<and> getArea (Rectangle w h) = w * h"
  by (simp add: Rectangle_def getArea_def)


subsection \<open>The check of a category call\<close>

lemma error_message_distinct: "error_message e = error_message e' \<Longrightarrow> e = e'"
  by (cases e; cases e') (simp_all add: orderError_def uniqueError_def)

lemma checkType_cases:
  "checkType t b =
     (if t < type b then (Inl OrderError, b)
      else if t = type b \<and> (t = 1 \<or> t = 2 \<or> t = 6) then (Inl UniquenessError, b)
      else (Inr (), b\<lparr>type := t\<rparr>))"
  by (simp add: checkType_def)

lemmas method_defs =
  element_def id_m_def class_m_def attr_def pseudoClass_def pseudoElement_def

lemma rank_range: "1 \<le> rank c \<and> rank c \<le> 6"
  by (cases c) simp_all

lemma apply_call_fails:
  "rank c < type b \<or> (rank c = type b \<and> rank c \<in> {1, 2, 6}) \<Longrightarrow>
   apply_call c b =
     (Inl (if rank c < type b then OrderError else UniquenessError), b)"
  by (cases c) (auto simp add: method_defs checkType_cases)

lemma apply_call_passes:
  assumes "\<not> rank c < type b" and "\<not> (rank c = type b \<and> rank c \<in> {1, 2, 6})"
  shows "fst (apply_call c b) = Inr ()"
    and "type (snd (apply_call c b)) = rank c"
    and "combinedString (snd (apply_call c b)) = combinedString b"
    and "tag (el (snd (apply_call c b))) = (if rank c = 1 then part c else tag (el b))"
    and "id_el (el (snd (apply_call c b))) = (if rank c = 2 then part c else id_el (el b))"
    and "class_el (el (snd (apply_call c b))) =
           (if rank c = 3 then class_el (el b) @ part c else class_el (el b))"
    and "attr_el (el (snd (apply_call c b))) =
           (if rank c = 4 then attr_el (el b) @ part c else attr_el (el b))"
    and "pseudoClass_el (el (snd (apply_call c b))) =
           (if rank c = 5 then pseudoClass_el (el b) @ part c else pseudoClass_el (el b))"
    and "pseudoElement_el (el (snd (apply_call c b))) =
           (if rank c = 6 then pseudoElement_el (el b) @ part c else pseudoElement_el (el b))"
  using assms by (cases c; auto simp add: method_defs checkType_cases)+

text \<open>
  Claim C2. A category call of rank \<open>R\<close> on an instance whose last rank is \<open>L\<close>: it
  fails with \<open>OrderError\<close> if \<open>R < L\<close>; it fails with \<open>UniquenessError\<close> if \<open>R = L\<close> and
  \<open>R\<close> is 1, 2 or 6; otherwise it succeeds, the last rank becomes \<open>R\<close>, and the field of
  the category is set (element, id) or extended (the others) with the text of the call,
  nothing else changing. So a call of rank 3, 4 or 5 can be repeated,
  \<^verbatim>\<open>id('a').id('b')\<close> fails with \<open>UniquenessError\<close> and \<^verbatim>\<open>class('a').id('b')\<close> with
  \<open>OrderError\<close>.
\<close>

theorem category_call_check:
  "(rank c < type b \<longrightarrow> fst (apply_call c b) = Inl OrderError) \<and>
   (rank c = type b \<and> rank c \<in> {1, 2, 6} \<longrightarrow> fst (apply_call c b) = Inl UniquenessError) \<and>
   (\<not> rank c < type b \<and> \<not> (rank c = type b \<and> rank c \<in> {1, 2, 6}) \<longrightarrow>
      fst (apply_call c b) = Inr () \<and>
      type (snd (apply_call c b)) = rank c \<and>
      combinedString (snd (apply_call c b)) = combinedString b \<and>
      el (snd (apply_call c b)) =
        (case c of
           CallElement v \<Rightarrow> (el b)\<lparr>tag := v\<rparr>
         | CallId v \<Rightarrow> (el b)\<lparr>id_el := ''#'' @ v\<rparr>
         | CallClass v \<Rightarrow> (el b)\<lparr>class_el := class_el (el b) @ ''.'' @ v\<rparr>
         | CallAttr v \<Rightarrow> (el b)\<lparr>attr_el := attr_el (el b) @ ''['' @ v @ '']''\<rparr>
         | CallPseudoClass v \<Rightarrow> (el b)\<lparr>pseudoClass_el := pseudoClass_el (el b) @ '':'' @ v\<rparr>
         | CallPseudoElement v \<Rightarrow>
             (el b)\<lparr>pseudoElement_el := pseudoElement_el (el b) @ ''::'' @ v\<rparr>)) \<and>
   (rank c \<in> {3, 4, 5} \<and> rank c' = rank c \<and> type b \<le> rank c \<longrightarrow>
      fst (run [c, c'] b) = Inr ()) \<and>
   fst (run [CallId ''a'', CallId ''b''] new_CssBuilder) = Inl UniquenessError \<and>
   fst (run [CallClass ''a'', CallId ''b''] new_CssBuilder) = Inl OrderError"
  apply (intro conjI)
  subgoal by (cases c) (simp_all add: method_defs checkType_cases)
  subgoal by (cases c) (simp_all add: method_defs checkType_cases)
  subgoal by (cases c) (auto simp add: method_defs checkType_cases)
  subgoal by (cases c; cases c') (simp_all add: method_defs checkType_cases)
  subgoal by (simp add: method_defs checkType_cases new_CssBuilder_def)
  subgoal by (simp add: method_defs checkType_cases new_CssBuilder_def)
  done

theorem category_call_check_witness:
  "rank (CallId ''b'') < type (new_CssBuilder\<lparr>type := 3\<rparr>) \<and>
   fst (apply_call (CallId ''b'') (new_CssBuilder\<lparr>type := 3\<rparr>)) = Inl OrderError \<and>
   rank (CallId ''b'') = type (new_CssBuilder\<lparr>type := 2\<rparr>) \<and>
   fst (apply_call (CallId ''b'') (new_CssBuilder\<lparr>type := 2\<rparr>)) = Inl UniquenessError \<and>
   \<not> rank (CallClass ''b'') < type (new_CssBuilder\<lparr>type := 3\<rparr>) \<and>
   fst (apply_call (CallClass ''b'') (new_CssBuilder\<lparr>type := 3\<rparr>)) = Inr () \<and>
   type (snd (apply_call (CallClass ''b'') (new_CssBuilder\<lparr>type := 3\<rparr>))) = 3 \<and>
   el (snd (apply_call (CallClass ''b'') (new_CssBuilder\<lparr>type := 3\<rparr>))) =
     empty_el\<lparr>class_el := ''.b''\<rparr> \<and>
   fst (run [CallAttr ''x'', CallAttr ''y''] (new_CssBuilder\<lparr>type := 3\<rparr>)) = Inr ()"
  using category_call_check [of "CallId ''b''" "new_CssBuilder\<lparr>type := 3\<rparr>"]
    category_call_check [of "CallId ''b''" "new_CssBuilder\<lparr>type := 2\<rparr>"]
    category_call_check [of "CallClass ''b''" "new_CssBuilder\<lparr>type := 3\<rparr>"]
    category_call_check [of "CallAttr ''x''" "new_CssBuilder\<lparr>type := 3\<rparr>" "CallAttr ''y''"]
  by (simp add: new_CssBuilder_def empty_el_def)


subsection \<open>Chains of category calls on a new instance\<close>

lemma run_append:
  "run (cs @ ds) b =
     (case run cs b of (Inl e, b1) \<Rightarrow> (Inl e, b1) | (Inr _, b1) \<Rightarrow> run ds b1)"
  by (induction cs arbitrary: b) (auto split: prod.splits sum.splits)

lemma run_single: "run [c] b = apply_call c b"
  by (cases "apply_call c b") (auto split: sum.splits)

lemma parts_of_rank_snoc:
  "parts_of_rank r (cs @ [c]) = parts_of_rank r cs @ (if rank c = r then part c else [])"
  by (simp add: parts_of_rank_def)

lemma occurrences_0_parts: "occurrences r cs = 0 \<Longrightarrow> parts_of_rank r cs = []"
  by (simp add: occurrences_def parts_of_rank_def)

lemma occurrences_0_last: "occurrences r cs = 0 \<Longrightarrow> cs \<noteq> [] \<Longrightarrow> rank (last cs) \<noteq> r"
  by (auto simp add: occurrences_def filter_empty_conv)

lemma ordered_chain_butlast: "ordered_chain (cs @ [c]) \<Longrightarrow> ordered_chain cs"
  by (auto simp add: ordered_chain_def occurrences_def sorted_append split: if_splits)

lemma ordered_chain_last_le:
  "ordered_chain (cs @ [c]) \<Longrightarrow> cs \<noteq> [] \<Longrightarrow> rank (last cs) \<le> rank c"
  by (simp add: ordered_chain_def sorted_append)

lemma ordered_chain_single_rank:
  "ordered_chain (cs @ [c]) \<Longrightarrow> rank c \<in> {1, 2, 6} \<Longrightarrow> occurrences (rank c) cs = 0"
  by (auto simp add: ordered_chain_def occurrences_def)

text \<open>
  The state an ordered chain leaves a new instance in: every call has passed its check,
  \<open>type\<close> is the rank of the last call, and each field of \<open>el\<close> holds the texts of
  its category in the order of the calls.
\<close>

lemma run_ordered_chain:
  "ordered_chain cs \<Longrightarrow>
     fst (run cs new_CssBuilder) = Inr () \<and>
     type (snd (run cs new_CssBuilder)) = last_rank cs \<and>
     combinedString (snd (run cs new_CssBuilder)) = [] \<and>
     tag (el (snd (run cs new_CssBuilder))) = parts_of_rank 1 cs \<and>
     id_el (el (snd (run cs new_CssBuilder))) = parts_of_rank 2 cs \<and>
     class_el (el (snd (run cs new_CssBuilder))) = parts_of_rank 3 cs \<and>
     attr_el (el (snd (run cs new_CssBuilder))) = parts_of_rank 4 cs \<and>
     pseudoClass_el (el (snd (run cs new_CssBuilder))) = parts_of_rank 5 cs \<and>
     pseudoElement_el (el (snd (run cs new_CssBuilder))) = parts_of_rank 6 cs"
proof (induction cs rule: rev_induct)
  case Nil
  show ?case
    by (simp add: new_CssBuilder_def empty_el_def parts_of_rank_def last_rank_def)
next
  case (snoc c cs)
  define b where "b = snd (run cs new_CssBuilder)"
  have oc: "ordered_chain cs"
    using snoc.prems by (rule ordered_chain_butlast)
  note ih = snoc.IH [OF oc, folded b_def]
  have run_cs: "run cs new_CssBuilder = (Inr (), b)"
    using ih by (simp add: b_def prod_eq_iff)
  have step: "run (cs @ [c]) new_CssBuilder = apply_call c b"
    using run_single [of c b] by (simp add: run_append run_cs)
  have le: "\<not> rank c < type b"
  proof (cases "cs = []")
    case True
    then show ?thesis using ih by (simp add: last_rank_def)
  next
    case False
    then show ?thesis
      using ih ordered_chain_last_le [OF snoc.prems] by (simp add: last_rank_def)
  qed
  have single: "occurrences (rank c) cs = 0" if "rank c \<in> {1, 2, 6}"
    using ordered_chain_single_rank [OF snoc.prems that] .
  have uniq: "\<not> (rank c = type b \<and> rank c \<in> {1, 2, 6})"
  proof
    assume a: "rank c = type b \<and> rank c \<in> {1, 2, 6}"
    then have z: "occurrences (rank c) cs = 0" using single by blast
    show False
    proof (cases "cs = []")
      case True
      then have "type b = 0" using ih by (simp add: last_rank_def)
      then show False using a rank_range [of c] by simp
    next
      case False
      then have "rank (last cs) \<noteq> rank c" using occurrences_0_last [OF z] by simp
      then show False using a ih False by (simp add: last_rank_def)
    qed
  qed
  note eff = apply_call_passes [OF le uniq]
  have p1: "rank c = 1 \<Longrightarrow> parts_of_rank 1 cs = []"
    using single occurrences_0_parts by force
  have p2: "rank c = 2 \<Longrightarrow> parts_of_rank 2 cs = []"
    using single occurrences_0_parts by force
  show ?case
    unfolding step
    using ih p1 p2 by (simp add: eff parts_of_rank_snoc last_rank_def)
qed

text \<open>
  Claim C1. For every chain of category calls on a new instance whose ranks never
  decrease and in which element, id and pseudo-element occur at most once, every call
  succeeds and \<open>stringify\<close> returns the texts of the calls joined without a separator in
  the category order: the tag, \<open>#\<close> and the id, the classes each after a dot, the
  attribute bodies each in square brackets, the pseudo-classes each after a colon, two
  colons and the pseudo-element; within a category the order is that of the calls. For
  the chain of no call the result is the empty string.
\<close>

theorem stringify_ordered_chain:
  "ordered_chain cs \<Longrightarrow>
     fst (run cs new_CssBuilder) = Inr () \<and>
     fst (stringify (snd (run cs new_CssBuilder))) = selector_text cs"
  using run_ordered_chain [of cs]
  by (simp add: stringify_def values_el_def selector_text_def)

theorem stringify_ordered_chain_witness:
  "ordered_chain
     [CallElement ''div'', CallId ''main'', CallClass ''container'', CallClass ''draggable'',
      CallAttr ''href'', CallPseudoClass ''focus'', CallPseudoElement ''after''] \<and>
   fst (stringify (snd (run
     [CallElement ''div'', CallId ''main'', CallClass ''container'', CallClass ''draggable'',
      CallAttr ''href'', CallPseudoClass ''focus'', CallPseudoElement ''after'']
     new_CssBuilder))) = ''div#main.container.draggable[href]:focus::after'' \<and>
   ordered_chain [] \<and>
   fst (stringify (snd (run [] new_CssBuilder))) = []"
  using stringify_ordered_chain
      [of "[CallElement ''div'', CallId ''main'', CallClass ''container'',
            CallClass ''draggable'', CallAttr ''href'', CallPseudoClass ''focus'',
            CallPseudoElement ''after'']"]
    stringify_ordered_chain [of "[]"]
  by (simp add: ordered_chain_def occurrences_def selector_text_def parts_of_rank_def)


subsection \<open>Rendering one instance\<close>

lemma clear_el_empty: "clear_el e = empty_el"
  by (simp add: clear_el_def empty_el_def)

lemma values_empty_el: "concat (values_el empty_el) = []"
  by (simp add: values_el_def empty_el_def)

lemma stringify_plain:
  "combinedString b = [] \<Longrightarrow>
   stringify b = (concat (values_el (el b)), b\<lparr>el := empty_el\<rparr>)"
  by (simp add: stringify_def clear_el_empty)

lemma stringify_combined:
  "combinedString b \<noteq> [] \<Longrightarrow> stringify b = (combinedString b, b\<lparr>combinedString := []\<rparr>)"
  by (simp add: stringify_def)

lemma stringify_type: "type (snd (stringify b)) = type b"
  by (simp add: stringify_def)

lemma stringify_empty_el:
  "combinedString b = [] \<Longrightarrow> el b = empty_el \<Longrightarrow> stringify b = ([], b)"
  by (simp add: stringify_plain values_empty_el)

text \<open>
  Claim C5. For every instance that is not combined (its \<open>combinedString\<close> is empty),
  one \<open>stringify\<close> leaves every field of \<open>el\<close> empty, and a second \<open>stringify\<close> on
  the instance returns the empty string.
\<close>

theorem stringify_twice:
  "combinedString b = [] \<Longrightarrow>
     el (snd (stringify b)) = empty_el \<and>
     fst (stringify (snd (stringify b))) = []"
  by (simp add: stringify_plain values_empty_el)

theorem stringify_twice_witness:
  "combinedString (snd (run [CallId ''main'', CallClass ''container''] new_CssBuilder)) = [] \<and>
   fst (stringify (snd (run [CallId ''main'', CallClass ''container''] new_CssBuilder))) =
     ''#main.container'' \<and>
   el (snd (stringify (snd (run [CallId ''main'', CallClass ''container''] new_CssBuilder)))) =
     empty_el \<and>
   fst (stringify (snd (stringify
     (snd (run [CallId ''main'', CallClass ''container''] new_CssBuilder))))) = []"
  using stringify_twice [of "snd (run [CallId ''main'', CallClass ''container''] new_CssBuilder)"]
  by (simp add: method_defs checkType_cases new_CssBuilder_def stringify_def values_el_def
      empty_el_def)

text \<open>
  Claim C9. On an instance that is not combined, \<open>stringify\<close> changes nothing but the
  six fields of \<open>el\<close>, which it empties: \<open>type\<close>, the rank of the last category call,
  stays. So after \<open>stringify\<close> a category call whose rank is below that rank still fails
  with \<open>OrderError\<close> (and leaves the instance as it is), and an instance on which a
  category call has succeeded is not, after \<open>stringify\<close>, in the state of a new one.
\<close>

theorem stringify_keeps_rank:
  "combinedString b = [] \<Longrightarrow>
     snd (stringify b) = b\<lparr>el := empty_el\<rparr> \<and>
     type (snd (stringify b)) = type b \<and>
     (rank c < type b \<longrightarrow>
        apply_call c (snd (stringify b)) = (Inl OrderError, snd (stringify b))) \<and>
     (0 < type b \<longrightarrow> snd (stringify b) \<noteq> new_CssBuilder)"
proof (intro conjI impI)
  assume plain: "combinedString b = []"
  show "snd (stringify b) = b\<lparr>el := empty_el\<rparr>"
    using plain by (simp add: stringify_plain)
  show "type (snd (stringify b)) = type b"
    by (rule stringify_type)
  show "apply_call c (snd (stringify b)) = (Inl OrderError, snd (stringify b))"
    if "rank c < type b"
    using that apply_call_fails [of c "snd (stringify b)"] by (simp add: stringify_type)
  show "snd (stringify b) \<noteq> new_CssBuilder" if "0 < type b"
  proof
    assume "snd (stringify b) = new_CssBuilder"
    then have "type (snd (stringify b)) = 0"
      by (simp add: new_CssBuilder_def)
    with that show False
      by (simp add: stringify_type)
  qed
qed

theorem stringify_keeps_rank_witness:
  "combinedString
     \<lparr>el = empty_el\<lparr>id_el := ''#main'', class_el := ''.container''\<rparr>, type = 3,
      combinedString = []\<rparr> = [] \<and>
   rank (CallElement ''div'') <
     type \<lparr>el = empty_el\<lparr>id_el := ''#main'', class_el := ''.container''\<rparr>, type = 3,
           combinedString = []\<rparr> \<and>
   stringify
     \<lparr>el = empty_el\<lparr>id_el := ''#main'', class_el := ''.container''\<rparr>, type = 3,
      combinedString = []\<rparr> =
     (''#main.container'', \<lparr>el = empty_el, type = 3, combinedString = []\<rparr>) \<and>
   apply_call (CallElement ''div'') \<lparr>el = empty_el, type = 3, combinedString = []\<rparr> =
     (Inl OrderError, \<lparr>el = empty_el, type = 3, combinedString = []\<rparr>) \<and>
   \<lparr>el = empty_el, type = 3, combinedString = []\<rparr> \<noteq> new_CssBuilder"
  using stringify_keeps_rank
      [of "\<lparr>el = empty_el\<lparr>id_el := ''#main'', class_el := ''.container''\<rparr>, type = 3,
            combinedString = []\<rparr>" "CallElement ''div''"]
  by (simp add: stringify_def values_el_def empty_el_def clear_el_def)


subsection \<open>A call that raises\<close>

text \<open>
  Claim C6. The error is the outcome of the offending category call itself, and
  \<open>stringify\<close> has no error outcome at all. A call that raises does so for its rank alone
  and leaves the instance exactly as it found it: nothing is set or appended and the last
  rank is not updated. A chain is cut at the first call that raises: what the calls before
  it have accumulated stays, and no later call runs.
\<close>

theorem raise_leaves_state:
  "(fst (apply_call c b) = Inl e \<longrightarrow>
      snd (apply_call c b) = b \<and>
      (rank c < type b \<or> (rank c = type b \<and> rank c \<in> {1, 2, 6}))) \<and>
   (run cs b0 = (Inr (), b) \<and> fst (apply_call c b) = Inl e \<longrightarrow>
      run (cs @ c # rest) b0 = (Inl e, b))"
proof (intro conjI impI)
  assume a: "fst (apply_call c b) = Inl e"
  show r: "rank c < type b \<or> (rank c = type b \<and> rank c \<in> {1, 2, 6})"
  proof (rule ccontr)
    assume n: "\<not> ?thesis"
    then have "fst (apply_call c b) = Inr ()"
      using apply_call_passes(1) [of c b] by blast
    with a show False by simp
  qed
  show "snd (apply_call c b) = b"
    using apply_call_fails [OF r] by simp
next
  assume a: "run cs b0 = (Inr (), b) \<and> fst (apply_call c b) = Inl e"
  then have r: "rank c < type b \<or> (rank c = type b \<and> rank c \<in> {1, 2, 6})"
    using apply_call_passes(1) [of c b] by force
  have "apply_call c b = (Inl e, b)"
    using apply_call_fails [OF r] a by (simp add: prod_eq_iff)
  then show "run (cs @ c # rest) b0 = (Inl e, b)"
    using a by (simp add: run_append)
qed

theorem raise_leaves_state_witness:
  "run [CallClass ''a''] new_CssBuilder =
     (Inr (), \<lparr>el = empty_el\<lparr>class_el := ''.a''\<rparr>, type = 3, combinedString = []\<rparr>) \<and>
   apply_call (CallId ''b'')
     \<lparr>el = empty_el\<lparr>class_el := ''.a''\<rparr>, type = 3, combinedString = []\<rparr> =
     (Inl OrderError, \<lparr>el = empty_el\<lparr>class_el := ''.a''\<rparr>, type = 3, combinedString = []\<rparr>) \<and>
   run ([CallClass ''a''] @ CallId ''b'' # [CallAttr ''x'']) new_CssBuilder =
     (Inl OrderError, \<lparr>el = empty_el\<lparr>class_el := ''.a''\<rparr>, type = 3, combinedString = []\<rparr>)"
  using raise_leaves_state
      [where c = "CallId ''b''" and e = OrderError and cs = "[CallClass ''a'']"
         and ?b0.0 = new_CssBuilder and rest = "[CallAttr ''x'']"
         and b = "\<lparr>el = empty_el\<lparr>class_el := ''.a''\<rparr>, type = 3, combinedString = []\<rparr>"]
  by (simp add: method_defs checkType_cases new_CssBuilder_def empty_el_def)


subsection \<open>Chains started at the facade\<close>

text \<open>
  Claim C7. In any store,
  \<^verbatim>\<open>element('div').id('test').class('myClass').attr('href').pseudoClass('focus').pseudoElement('after').stringify()\<close>
  returns \<^verbatim>\<open>div#test.myClass[href]:focus::after\<close>, and
  \<^verbatim>\<open>element('a').attr('href$=".png"').pseudoClass('focus').stringify()\<close> returns
  \<^verbatim>\<open>a[href$=".png"]:focus\<close>.
\<close>

theorem facade_chains:
  "fst (then_stringify (then_call (then_call (then_call (then_call (then_call
      (cssSelectorBuilder_element ''div'' s) (id_m ''test'')) (class_m ''myClass''))
      (attr ''href'')) (pseudoClass ''focus'')) (pseudoElement ''after''))) =
     Inr ''div#test.myClass[href]:focus::after'' \<and>
   fst (then_stringify (then_call (then_call
      (cssSelectorBuilder_element ''a'' s) (attr ''href$=\".png\"'')) (pseudoClass ''focus''))) =
     Inr ''a[href$=\".png\"]:focus''"
  by (simp add: then_stringify_def then_call_def cssSelectorBuilder_element_def
      new_instance_def call_method_def stringify_ref_def stringify_def values_el_def
      method_defs checkType_cases new_CssBuilder_def empty_el_def)


subsection \<open>combine\<close>

lemma stringify_ref_fst: "fst (stringify_ref r s) = fst (stringify (objs s r))"
  by (simp add: stringify_ref_def split: prod.splits)

lemma stringify_ref_objs:
  "objs (snd (stringify_ref r s)) = (objs s)(r := snd (stringify (objs s r)))"
  by (simp add: stringify_ref_def split: prod.splits)

lemma stringify_ref_next: "next_ref (snd (stringify_ref r s)) = next_ref s"
  by (simp add: stringify_ref_def split: prod.splits)

lemma stringify_ref_other:
  "r' \<noteq> r \<Longrightarrow> fst (stringify_ref r' (snd (stringify_ref r s))) = fst (stringify_ref r' s)"
  by (simp add: stringify_ref_fst stringify_ref_objs)

lemma combine_unfold:
  "combine this A c B s =
     (this,
      (snd (stringify_ref B (snd (stringify_ref A s))))
        \<lparr>objs := (objs (snd (stringify_ref B (snd (stringify_ref A s)))))
           (this := (objs (snd (stringify_ref B (snd (stringify_ref A s)))) this)
              \<lparr>combinedString := joined A c B s\<rparr>)\<rparr>)"
  by (simp add: combine_def joined_def case_prod_beta)

lemma combine_fst: "fst (combine this A c B s) = this"
  by (simp add: combine_unfold)

lemma combine_objs:
  "objs (snd (combine this A c B s)) =
     (objs (snd (stringify_ref B (snd (stringify_ref A s)))))
       (this := (objs (snd (stringify_ref B (snd (stringify_ref A s)))) this)
          \<lparr>combinedString := joined A c B s\<rparr>)"
  by (simp add: combine_unfold)

lemma combine_next: "next_ref (snd (combine this A c B s)) = next_ref s"
  by (simp add: combine_unfold stringify_ref_next)

lemma joined_not_empty: "joined A c B s \<noteq> []"
  by (simp add: joined_def)

lemma combine_result:
  "fst (stringify_ref this (snd (combine this A c B s))) = joined A c B s"
  by (simp add: stringify_ref_fst combine_objs stringify_combined joined_not_empty)

lemma new_instance_objs:
  "objs (snd (new_instance s)) = (objs s)(next_ref s := new_CssBuilder)"
  by (simp add: new_instance_def)

lemma new_instance_next: "next_ref (snd (new_instance s)) = Suc (next_ref s)"
  by (simp add: new_instance_def)

lemma facade_combine_unfold:
  "cssSelectorBuilder_combine A c B s = combine (next_ref s) A c B (snd (new_instance s))"
  by (simp add: cssSelectorBuilder_combine_def new_instance_def)

lemma joined_new:
  "A < next_ref s \<Longrightarrow> B < next_ref s \<Longrightarrow> joined A c B (snd (new_instance s)) = joined A c B s"
  by (simp add: joined_def stringify_ref_fst stringify_ref_objs new_instance_objs)

lemma joined_distinct:
  "A \<noteq> B \<Longrightarrow>
   joined A c B s = fst (stringify_ref A s) @ '' '' @ c @ '' '' @ fst (stringify_ref B s)"
  by (simp add: joined_def stringify_ref_other)

lemma facade_combine_result:
  "A < next_ref s \<Longrightarrow> B < next_ref s \<Longrightarrow>
   fst (stringify_ref (fst (cssSelectorBuilder_combine A c B s))
          (snd (cssSelectorBuilder_combine A c B s))) = joined A c B s"
  by (simp add: facade_combine_unfold combine_fst combine_result joined_new)

lemma facade_combine_fst: "fst (cssSelectorBuilder_combine A c B s) = next_ref s"
  by (simp add: facade_combine_unfold combine_fst)

lemma facade_combine_next:
  "next_ref (snd (cssSelectorBuilder_combine A c B s)) = Suc (next_ref s)"
  by (simp add: facade_combine_unfold combine_next new_instance_next)

lemma facade_combine_objs_old:
  "A < next_ref s \<Longrightarrow> B < next_ref s \<Longrightarrow> r < next_ref s \<Longrightarrow>
   objs (snd (cssSelectorBuilder_combine A c B s)) r =
   objs (snd (stringify_ref B (snd (stringify_ref A s)))) r"
  by (simp add: facade_combine_unfold combine_objs stringify_ref_objs new_instance_objs)

lemma facade_combine_objs_new:
  "A < next_ref s \<Longrightarrow> B < next_ref s \<Longrightarrow>
   objs (snd (cssSelectorBuilder_combine A c B s)) (next_ref s) =
   new_CssBuilder\<lparr>combinedString := joined A c B s\<rparr>"
  by (simp add: facade_combine_unfold combine_objs stringify_ref_objs new_instance_objs joined_new)

lemmas store_defs =
  then_stringify_def then_call_def cssSelectorBuilder_element_def
  new_instance_def call_method_def stringify_ref_def stringify_def values_el_def
  method_defs checkType_cases new_CssBuilder_def empty_el_def init_store_def clear_el_def

lemma example_store_next: "next_ref example_store = 3"
  by (simp add: example_store_def store_defs)

lemma example_store_0:
  "objs example_store 0 =
     \<lparr>el = empty_el\<lparr>tag := ''div'', id_el := ''#main''\<rparr>, type = 2, combinedString = []\<rparr>"
  by (simp add: example_store_def store_defs)

lemma example_store_1:
  "objs example_store (Suc 0) =
     \<lparr>el = empty_el\<lparr>tag := ''table'', id_el := ''#data''\<rparr>, type = 2, combinedString = []\<rparr>"
  by (simp add: example_store_def store_defs)

lemma example_store_2:
  "objs example_store 2 =
     \<lparr>el = empty_el\<lparr>tag := ''tr'', pseudoClass_el := '':nth-of-type(even)''\<rparr>, type = 5,
      combinedString = []\<rparr>"
  by (simp add: example_store_def store_defs)

lemma example_renders:
  "fst (stringify_ref 0 example_store) = ''div#main''"
  "fst (stringify_ref (Suc 0) example_store) = ''table#data''"
  "fst (stringify_ref 2 example_store) = ''tr:nth-of-type(even)''"
  by (simp_all add: stringify_ref_fst example_store_0 example_store_1 example_store_2
      stringify_def values_el_def empty_el_def)

lemma example_render_again:
  "fst (stringify_ref 0 (snd (stringify_ref 0 example_store))) = []"
  by (simp add: stringify_ref_fst stringify_ref_objs example_store_0 stringify_plain
      values_empty_el)

lemma example_render_second:
  "fst (stringify_ref (Suc 0) (snd (stringify_ref 0 example_store))) = ''table#data''"
  using stringify_ref_other [of "Suc 0" 0 example_store]
  by (simp add: example_renders)

text \<open>
  Claim C3. For all instances \<open>A\<close> and \<open>B\<close> and every combinator string \<open>c\<close>,
  \<open>stringify\<close> on the result of \<^verbatim>\<open>combine(A, c, B)\<close> returns the string \<open>A\<close> renders, a
  space, \<open>c\<close>, a space, and the string \<open>B\<close> renders. \<open>A\<close> is rendered first, so when
  \<open>A\<close> and \<open>B\<close> are one object the string of \<open>B\<close> is the one it renders after that;
  for two objects it is the string \<open>B\<close> renders in the store as it was. The operands may
  themselves be results of \<^verbatim>\<open>combine\<close>: \<^verbatim>\<open>combine(combine(X, c1, Y), c2, Z)\<close> and
  \<^verbatim>\<open>combine(X, c1, combine(Y, c2, Z))\<close> render the inner result in the place of the
  operand.
\<close>

theorem combine_renders_operands:
  "fst (stringify_ref this (snd (combine this A c B s))) =
     fst (stringify_ref A s) @ '' '' @ c @ '' '' @
     fst (stringify_ref B (snd (stringify_ref A s))) \<and>
   (A < next_ref s \<and> B < next_ref s \<longrightarrow>
      fst (stringify_ref (fst (cssSelectorBuilder_combine A c B s))
             (snd (cssSelectorBuilder_combine A c B s))) =
        fst (stringify_ref A s) @ '' '' @ c @ '' '' @
        fst (stringify_ref B (snd (stringify_ref A s)))) \<and>
   (A < next_ref s \<and> B < next_ref s \<and> A \<noteq> B \<longrightarrow>
      fst (stringify_ref (fst (cssSelectorBuilder_combine A c B s))
             (snd (cssSelectorBuilder_combine A c B s))) =
        fst (stringify_ref A s) @ '' '' @ c @ '' '' @ fst (stringify_ref B s)) \<and>
   (X < next_ref s \<and> Y < next_ref s \<and> Z < next_ref s \<and> X \<noteq> Y \<and> X \<noteq> Z \<and> Y \<noteq> Z \<longrightarrow>
      (case cssSelectorBuilder_combine X c1 Y s of
         (n1, s1) \<Rightarrow>
           (case cssSelectorBuilder_combine n1 c2 Z s1 of
              (n2, s2) \<Rightarrow> fst (stringify_ref n2 s2))) =
        (fst (stringify_ref X s) @ '' '' @ c1 @ '' '' @ fst (stringify_ref Y s)) @
        '' '' @ c2 @ '' '' @ fst (stringify_ref Z s)) \<and>
   (X < next_ref s \<and> Y < next_ref s \<and> Z < next_ref s \<and> X \<noteq> Y \<and> X \<noteq> Z \<and> Y \<noteq> Z \<longrightarrow>
      (case cssSelectorBuilder_combine Y c2 Z s of
         (n1, s1) \<Rightarrow>
           (case cssSelectorBuilder_combine X c1 n1 s1 of
              (n2, s2) \<Rightarrow> fst (stringify_ref n2 s2))) =
        fst (stringify_ref X s) @ '' '' @ c1 @ '' '' @
        (fst (stringify_ref Y s) @ '' '' @ c2 @ '' '' @ fst (stringify_ref Z s)))"
proof (intro conjI impI)
  show "fst (stringify_ref this (snd (combine this A c B s))) =
     fst (stringify_ref A s) @ '' '' @ c @ '' '' @
     fst (stringify_ref B (snd (stringify_ref A s)))"
    by (simp add: combine_result joined_def)
next
  assume "A < next_ref s \<and> B < next_ref s"
  then show "fst (stringify_ref (fst (cssSelectorBuilder_combine A c B s))
             (snd (cssSelectorBuilder_combine A c B s))) =
        fst (stringify_ref A s) @ '' '' @ c @ '' '' @
        fst (stringify_ref B (snd (stringify_ref A s)))"
    by (simp add: facade_combine_result joined_def)
next
  assume "A < next_ref s \<and> B < next_ref s \<and> A \<noteq> B"
  then show "fst (stringify_ref (fst (cssSelectorBuilder_combine A c B s))
             (snd (cssSelectorBuilder_combine A c B s))) =
        fst (stringify_ref A s) @ '' '' @ c @ '' '' @ fst (stringify_ref B s)"
    by (simp add: facade_combine_result joined_distinct)
next
  assume a: "X < next_ref s \<and> Y < next_ref s \<and> Z < next_ref s \<and> X \<noteq> Y \<and> X \<noteq> Z \<and> Y \<noteq> Z"
  define n1 where "n1 = fst (cssSelectorBuilder_combine X c1 Y s)"
  define s1 where "s1 = snd (cssSelectorBuilder_combine X c1 Y s)"
  have n1: "n1 = next_ref s"
    by (simp add: n1_def facade_combine_fst)
  have nx: "next_ref s1 = Suc (next_ref s)"
    by (simp add: s1_def facade_combine_next)
  have inner: "fst (stringify_ref n1 s1) = joined X c1 Y s"
    using a by (simp add: n1_def s1_def facade_combine_result)
  have z: "fst (stringify_ref Z s1) = fst (stringify_ref Z s)"
    using a by (simp add: s1_def stringify_ref_fst facade_combine_objs_old stringify_ref_objs)
  have "fst (stringify_ref (fst (cssSelectorBuilder_combine n1 c2 Z s1))
          (snd (cssSelectorBuilder_combine n1 c2 Z s1))) = joined n1 c2 Z s1"
    using a by (simp add: facade_combine_result n1 nx)
  also have "\<dots> = fst (stringify_ref n1 s1) @ '' '' @ c2 @ '' '' @ fst (stringify_ref Z s1)"
    using a by (simp add: joined_distinct n1)
  finally show "(case cssSelectorBuilder_combine X c1 Y s of
         (n1, s1) \<Rightarrow>
           (case cssSelectorBuilder_combine n1 c2 Z s1 of
              (n2, s2) \<Rightarrow> fst (stringify_ref n2 s2))) =
        (fst (stringify_ref X s) @ '' '' @ c1 @ '' '' @ fst (stringify_ref Y s)) @
        '' '' @ c2 @ '' '' @ fst (stringify_ref Z s)"
    using a by (simp add: case_prod_beta n1_def [symmetric] s1_def [symmetric] inner z
        joined_distinct)
next
  assume a: "X < next_ref s \<and> Y < next_ref s \<and> Z < next_ref s \<and> X \<noteq> Y \<and> X \<noteq> Z \<and> Y \<noteq> Z"
  define n1 where "n1 = fst (cssSelectorBuilder_combine Y c2 Z s)"
  define s1 where "s1 = snd (cssSelectorBuilder_combine Y c2 Z s)"
  have n1: "n1 = next_ref s"
    by (simp add: n1_def facade_combine_fst)
  have nx: "next_ref s1 = Suc (next_ref s)"
    by (simp add: s1_def facade_combine_next)
  have inner: "fst (stringify_ref n1 s1) = joined Y c2 Z s"
    using a by (simp add: n1_def s1_def facade_combine_result)
  have x: "fst (stringify_ref X s1) = fst (stringify_ref X s)"
    using a by (simp add: s1_def stringify_ref_fst facade_combine_objs_old stringify_ref_objs)
  have "fst (stringify_ref (fst (cssSelectorBuilder_combine X c1 n1 s1))
          (snd (cssSelectorBuilder_combine X c1 n1 s1))) = joined X c1 n1 s1"
    using a by (simp add: facade_combine_result n1 nx)
  also have "\<dots> = fst (stringify_ref X s1) @ '' '' @ c1 @ '' '' @ fst (stringify_ref n1 s1)"
    using a by (simp add: joined_distinct n1)
  finally show "(case cssSelectorBuilder_combine Y c2 Z s of
         (n1, s1) \<Rightarrow>
           (case cssSelectorBuilder_combine X c1 n1 s1 of
              (n2, s2) \<Rightarrow> fst (stringify_ref n2 s2))) =
        fst (stringify_ref X s) @ '' '' @ c1 @ '' '' @
        (fst (stringify_ref Y s) @ '' '' @ c2 @ '' '' @ fst (stringify_ref Z s))"
    using a by (simp add: case_prod_beta n1_def [symmetric] s1_def [symmetric] inner x
        joined_distinct)
qed

theorem combine_renders_operands_witness:
  "(0::nat) < next_ref example_store \<and> (1::nat) < next_ref example_store \<and>
   (2::nat) < next_ref example_store \<and>
   (0::nat) \<noteq> 1 \<and> (0::nat) \<noteq> 2 \<and> (1::nat) \<noteq> 2 \<and>
   fst (stringify_ref (fst (cssSelectorBuilder_combine 0 ''+'' 1 example_store))
          (snd (cssSelectorBuilder_combine 0 ''+'' 1 example_store))) =
     ''div#main + table#data'' \<and>
   fst (stringify_ref (fst (cssSelectorBuilder_combine 0 ''+'' 0 example_store))
          (snd (cssSelectorBuilder_combine 0 ''+'' 0 example_store))) =
     ''div#main + '' \<and>
   (case cssSelectorBuilder_combine 0 ''~'' 1 example_store of
      (n1, s1) \<Rightarrow>
        (case cssSelectorBuilder_combine n1 ''+'' 2 s1 of
           (n2, s2) \<Rightarrow> fst (stringify_ref n2 s2))) =
     ''div#main ~ table#data + tr:nth-of-type(even)'' \<and>
   (case cssSelectorBuilder_combine 1 ''~'' 2 example_store of
      (n1, s1) \<Rightarrow>
        (case cssSelectorBuilder_combine 0 ''+'' n1 s1 of
           (n2, s2) \<Rightarrow> fst (stringify_ref n2 s2))) =
     ''div#main + table#data ~ tr:nth-of-type(even)''"
  using combine_renders_operands
      [where A = 0 and B = 1 and c = "''+''" and s = example_store
         and X = 0 and Y = 1 and Z = 2 and ?c1.0 = "''~''" and ?c2.0 = "''+''"]
    combine_renders_operands
      [where A = 0 and B = 0 and c = "''+''" and s = example_store
         and X = 0 and Y = 1 and Z = 2 and ?c1.0 = "''+''" and ?c2.0 = "''~''"]
  by (simp add: example_store_next example_renders example_render_again example_render_second)

text \<open>
  Claim C4. Whatever the combinator string, \<^verbatim>\<open>combine\<close> stores, and \<open>stringify\<close> then
  returns, the left string, exactly one space, the combinator, exactly one space, and the
  right string. With the descendant combinator, itself a space, the two strings are
  therefore three spaces apart, so the output has two adjacent spaces right after the left
  string.
\<close>

theorem combine_single_spaces:
  "combinedString (objs (snd (combine this A c B s)) this) =
     fst (stringify_ref A s) @ [CHR '' ''] @ c @ [CHR '' ''] @
     fst (stringify_ref B (snd (stringify_ref A s))) \<and>
   fst (stringify_ref this (snd (combine this A c B s))) =
     fst (stringify_ref A s) @ [CHR '' ''] @ c @ [CHR '' ''] @
     fst (stringify_ref B (snd (stringify_ref A s))) \<and>
   fst (stringify_ref this (snd (combine this A '' '' B s))) =
     fst (stringify_ref A s) @ [CHR '' '', CHR '' '', CHR '' ''] @
     fst (stringify_ref B (snd (stringify_ref A s))) \<and>
   (\<exists>v. fst (stringify_ref this (snd (combine this A '' '' B s))) =
      fst (stringify_ref A s) @ [CHR '' '', CHR '' ''] @ v)"
  by (simp add: combine_result combine_objs joined_def)

text \<open>
  Claim C10. \<^verbatim>\<open>combine(A, c, B)\<close> renders both operands when it is called. For operands
  \<open>A\<close> and \<open>B\<close> of the store that are not combined: after the call, \<open>stringify\<close> on
  \<open>A\<close> and \<open>stringify\<close> on \<open>B\<close> (alone, or one after the other) return the empty
  string, the fields of both are empty, the returned instance is a new one, different
  from both, its \<open>combinedString\<close> is the joined string, and the \<open>combinedString\<close> of
  every other instance is what it was.
\<close>

theorem combine_resets_operands:
  "A < next_ref s \<and> B < next_ref s \<and>
   combinedString (objs s A) = [] \<and> combinedString (objs s B) = [] \<Longrightarrow>
   (let n = fst (cssSelectorBuilder_combine A c B s);
        s' = snd (cssSelectorBuilder_combine A c B s)
    in fst (stringify_ref A s') = [] \<and>
       fst (stringify_ref B s') = [] \<and>
       fst (stringify_ref B (snd (stringify_ref A s'))) = [] \<and>
       el (objs s' A) = empty_el \<and>
       el (objs s' B) = empty_el \<and>
       n = next_ref s \<and> n \<noteq> A \<and> n \<noteq> B \<and>
       combinedString (objs s' n) =
         fst (stringify_ref A s) @ '' '' @ c @ '' '' @
         fst (stringify_ref B (snd (stringify_ref A s))) \<and>
       (\<forall>r. r \<noteq> n \<longrightarrow> combinedString (objs s' r) = combinedString (objs s r)))"
proof -
  assume a: "A < next_ref s \<and> B < next_ref s \<and>
   combinedString (objs s A) = [] \<and> combinedString (objs s B) = []"
  define s' where "s' = snd (cssSelectorBuilder_combine A c B s)"
  define t where "t = snd (stringify_ref B (snd (stringify_ref A s)))"
  have old: "objs s' r = objs t r" if "r < next_ref s" for r
    using a that by (simp add: s'_def t_def facade_combine_objs_old)
  have tA: "combinedString (objs t A) = [] \<and> el (objs t A) = empty_el"
    using a by (simp add: t_def stringify_ref_objs stringify_plain)
  have tB: "combinedString (objs t B) = [] \<and> el (objs t B) = empty_el"
    using a by (simp add: t_def stringify_ref_objs stringify_plain)
  have tr: "combinedString (objs t r) = combinedString (objs s r)" for r
    using a by (simp add: t_def stringify_ref_objs stringify_plain)
  have new: "objs s' (next_ref s) = new_CssBuilder\<lparr>combinedString := joined A c B s\<rparr>"
    using a by (simp add: s'_def facade_combine_objs_new)
  have other: "combinedString (objs s' r) = combinedString (objs s r)" if "r \<noteq> next_ref s" for r
  proof (cases "r < next_ref s")
    case True
    then show ?thesis by (simp add: old tr)
  next
    case False
    with that have "next_ref s < r" by simp
    then show ?thesis
      using a
      by (simp add: s'_def facade_combine_unfold combine_objs stringify_ref_objs new_instance_objs)
  qed
  have rA: "fst (stringify_ref A s') = []"
    using a tA by (simp add: stringify_ref_fst old stringify_empty_el)
  have rB: "fst (stringify_ref B s') = []"
    using a tB by (simp add: stringify_ref_fst old stringify_empty_el)
  have rAB: "fst (stringify_ref B (snd (stringify_ref A s'))) = []"
    using a tA tB by (simp add: stringify_ref_fst stringify_ref_objs old stringify_empty_el)
  show ?thesis
    unfolding Let_def s'_def [symmetric]
    using a rA rB rAB tA tB new other
    by (simp add: facade_combine_fst old joined_def)
qed

theorem combine_resets_operands_witness:
  "(0::nat) < next_ref example_store \<and> (1::nat) < next_ref example_store \<and>
   combinedString (objs example_store 0) = [] \<and>
   combinedString (objs example_store 1) = [] \<and>
   fst (stringify_ref 0 example_store) = ''div#main'' \<and>
   fst (stringify_ref 1 example_store) = ''table#data'' \<and>
   fst (stringify_ref 0 (snd (cssSelectorBuilder_combine 0 ''+'' 1 example_store))) = [] \<and>
   fst (stringify_ref 1 (snd (cssSelectorBuilder_combine 0 ''+'' 1 example_store))) = [] \<and>
   fst (cssSelectorBuilder_combine 0 ''+'' 1 example_store) = 3 \<and>
   combinedString (objs (snd (cssSelectorBuilder_combine 0 ''+'' 1 example_store)) 3) =
     ''div#main + table#data''"
proof -
  have h: "(0::nat) < next_ref example_store \<and> (1::nat) < next_ref example_store \<and>
    combinedString (objs example_store 0) = [] \<and> combinedString (objs example_store 1) = []"
    by (simp add: example_store_next example_store_0 example_store_1)
  have n: "fst (cssSelectorBuilder_combine 0 ''+'' 1 example_store) = 3"
    by (simp add: facade_combine_fst example_store_next)
  note t = combine_resets_operands
    [where A = 0 and B = 1 and c = "''+''" and s = example_store, OF h, unfolded Let_def n example_store_next]
  show ?thesis
    using h t n
    by (simp add: example_renders example_render_second)
qed

end
